theory Spec2Isabelle
  imports Main "HOL-Library.List_Lexorder" "HOL-Library.Monad_Syntax"
begin

section \<open>Strings, errors and panics\<close>

text \<open>
  The renderer measures and cuts strings in code points (\<^verbatim>\<open>utf8.RuneCountInString\<close>,
  \<^verbatim>\<open>[]rune(v)\<close>), so a Go string is modelled as the list of its code points; the
  conversions \<^verbatim>\<open>[]rune(v)\<close> and \<^verbatim>\<open>string(runes)\<close> are then the identity (as they
  are on valid UTF-8 text). An ASCII literal is written \<open>str ''...''\<close>.
  Lengths and widths are Go \<^verbatim>\<open>int\<close>s; every one of them is bounded by the length of an
  input string or by \<^verbatim>\<open>MaxColumnWidth\<close>, so no operation below wraps around and they are
  modelled as \<open>int\<close>.
\<close>

type_synonym rune = nat
type_synonym gostring = "rune list"

definition str :: "string \<Rightarrow> gostring" where
  "str s = map of_char s"

definition RuneCountInString :: "gostring \<Rightarrow> int" where
  "RuneCountInString s = int (length s)"

text \<open>
  tablewriter.go: the two sentinel errors. \<open>ErrJSONMarshal e\<close> is the error that
  renderJSON builds with \<^verbatim>\<open>fmt.Errorf("tablewriter: JSON marshal failed: %w", err)\<close>
  around an error \<open>e\<close> of encoding/json (\<open>ErrEncoding\<close>).
\<close>

datatype error =
    ErrMissingHeaders
  | ErrColumnMismatch
  | ErrEncoding
  | ErrJSONMarshal error

text \<open>
  A run-time panic of Go (an index out of range, a negative count given to
  \<^verbatim>\<open>strings.Repeat\<close>) is the value \<open>None\<close>; a function that can reach one returns an
  option. \<open>idx\<close> is the indexing expression \<^verbatim>\<open>xs[i]\<close>.
\<close>

definition idx :: "'a list \<Rightarrow> nat \<Rightarrow> 'a option" where
  "idx xs i = (if i < length xs then Some (xs ! i) else None)"

text \<open>strings.Repeat(s, count): panics on a negative count.\<close>

definition Repeat :: "gostring \<Rightarrow> int \<Rightarrow> gostring option" where
  "Repeat s count = (if count < 0 then None else Some (concat (replicate (nat count) s)))"

text \<open>
  A \<^verbatim>\<open>for ... range xs\<close> loop whose body may panic: the state \<open>s\<close> (a buffer, the
  width vector) is threaded through the elements in order, and the first panic ends
  the loop. \<^verbatim>\<open>for i, x := range xs\<close> runs over \<open>enumerate 0 xs\<close>, and
  \<^verbatim>\<open>for i := a; i < b; i++\<close> over \<open>[a..<b]\<close>.
\<close>

fun forEach :: "'a list \<Rightarrow> 's \<Rightarrow> ('s \<Rightarrow> 'a \<Rightarrow> 's option) \<Rightarrow> 's option" where
  "forEach [] s body = Some s"
| "forEach (x # xs) s body = (case body s x of None \<Rightarrow> None | Some s' \<Rightarrow> forEach xs s' body)"

section \<open>tablewriter.go: options, table, AddRow\<close>

type_synonym Format = int

definition FormatPlain :: Format where "FormatPlain = 0"
definition FormatMarkdown :: Format where "FormatMarkdown = 1"
definition FormatCSV :: Format where "FormatCSV = 2"
definition FormatJSON :: Format where "FormatJSON = 3"
definition FormatSimple :: Format where "FormatSimple = 4"

type_synonym Alignment = int

definition AlignLeft :: Alignment where "AlignLeft = 0"
definition AlignCenter :: Alignment where "AlignCenter = 1"
definition AlignRight :: Alignment where "AlignRight = 2"

record Options =
  Headers :: "gostring list"
  Format :: Format
  Alignments :: "Alignment list"
  MaxColumnWidth :: int
  NullPlaceholder :: gostring
  StrictColumnCount :: bool

text \<open>options.go: the default options and the chainable setters (each returns a copy).\<close>

definition DefaultOptions :: Options where
  "DefaultOptions =
    \<lparr>Headers = [], Format = FormatPlain, Alignments = [], MaxColumnWidth = 0,
     NullPlaceholder = [], StrictColumnCount = False\<rparr>"

definition WithHeaders :: "Options \<Rightarrow> gostring list \<Rightarrow> Options" where
  "WithHeaders opts headers = opts\<lparr>Headers := headers\<rparr>"

definition WithFormat :: "Options \<Rightarrow> Format \<Rightarrow> Options" where
  "WithFormat opts f = opts\<lparr>Format := f\<rparr>"

definition WithAlignments :: "Options \<Rightarrow> Alignment list \<Rightarrow> Options" where
  "WithAlignments opts a = opts\<lparr>Alignments := a\<rparr>"

definition WithMaxColumnWidth :: "Options \<Rightarrow> int \<Rightarrow> Options" where
  "WithMaxColumnWidth opts w = opts\<lparr>MaxColumnWidth := w\<rparr>"

definition WithNullPlaceholder :: "Options \<Rightarrow> gostring \<Rightarrow> Options" where
  "WithNullPlaceholder opts s = opts\<lparr>NullPlaceholder := s\<rparr>"

definition WithStrictColumnCount :: "Options \<Rightarrow> Options" where
  "WithStrictColumnCount opts = opts\<lparr>StrictColumnCount := True\<rparr>"

text \<open>The struct Table; its fields \<^verbatim>\<open>opts\<close> and \<^verbatim>\<open>rows\<close> carry the prefix \<open>tbl_\<close>.\<close>

record Table =
  tbl_opts :: Options
  tbl_rows :: "gostring list list"

definition New :: "Options \<Rightarrow> Table" where
  "New opts = \<lparr>tbl_opts = opts, tbl_rows = []\<rparr>"

text \<open>
  AddRow mutates the table behind the pointer receiver and returns an error; the model
  returns the table after the call together with the error (\<open>None\<close> is \<^verbatim>\<open>nil\<close>).
  \<^verbatim>\<open>make\<close> and \<^verbatim>\<open>copy\<close> store a fresh copy of the cells, which as a value is \<open>cols\<close>.
\<close>

definition AddRow :: "Table \<Rightarrow> gostring list \<Rightarrow> Table \<times> error option" where
  "AddRow t cols =
    (if StrictColumnCount (tbl_opts t) \<and> length (Headers (tbl_opts t)) > 0
        \<and> length cols \<noteq> length (Headers (tbl_opts t))
     then (t, Some ErrColumnMismatch)
     else
       (let row = cols
        in (t\<lparr>tbl_rows := tbl_rows t @ [row]\<rparr>, None)))"

definition RowCount :: "Table \<Rightarrow> int" where
  "RowCount t = int (length (tbl_rows t))"

section \<open>The rendering engine: shared helpers\<close>

text \<open>
  applyCellOpts: the slices \<^verbatim>\<open>runes[:MaxColumnWidth-3]\<close> and \<^verbatim>\<open>runes[:MaxColumnWidth]\<close>
  are taken only under the guard that the rune count exceeds \<^verbatim>\<open>MaxColumnWidth > 0\<close>,
  so their bound lies within the slice and they are \<open>take\<close>.
\<close>

definition applyCellOpts :: "gostring \<Rightarrow> Options \<Rightarrow> gostring" where
  "applyCellOpts v0 opts =
    (let v = (if v0 = [] \<and> NullPlaceholder opts \<noteq> [] then NullPlaceholder opts else v0)
     in if MaxColumnWidth opts > 0 \<and> RuneCountInString v > MaxColumnWidth opts
        then (let runes = v
              in if MaxColumnWidth opts > 3
                 then take (nat (MaxColumnWidth opts - 3)) runes @ str ''...''
                 else take (nat (MaxColumnWidth opts)) runes)
        else v)"

text \<open>
  alignCell: \<^verbatim>\<open>pad / 2\<close> is Go's truncating division, taken here of a positive \<open>pad\<close>,
  where it is \<open>div\<close>.
\<close>

definition alignCell :: "gostring \<Rightarrow> int \<Rightarrow> Alignment \<Rightarrow> gostring option" where
  "alignCell s width align =
    (let slen = RuneCountInString s;
         pad = width - slen
     in if pad \<le> 0 then Some s
        else if align = AlignRight then
          do { p \<leftarrow> Repeat (str '' '') pad; Some (p @ s) }
        else if align = AlignCenter then
          (let left = pad div 2;
               right = pad - left
           in do { l \<leftarrow> Repeat (str '' '') left;
                   r \<leftarrow> Repeat (str '' '') right;
                   Some (l @ s @ r) })
        else
          do { p \<leftarrow> Repeat (str '' '') pad; Some (s @ p) })"

definition getAlign :: "Options \<Rightarrow> nat \<Rightarrow> Alignment" where
  "getAlign opts col =
    (if col < length (Alignments opts) then Alignments opts ! col else AlignLeft)"

text \<open>
  colWidths. \<open>raiseWidth\<close> is the statement
  \<^verbatim>\<open>if w > widths[i] { widths[i] = w }\<close> of both measuring loops.
\<close>

definition raiseWidth :: "int list \<Rightarrow> nat \<Rightarrow> int \<Rightarrow> int list option" where
  "raiseWidth widths i w =
    do { wi \<leftarrow> idx widths i;
         if w > wi then Some (widths[i := w]) else Some widths }"

definition colWidths :: "Options \<Rightarrow> gostring list list \<Rightarrow> int list option" where
  "colWidths opts rows =
    (let numCols = foldl (\<lambda>numCols r. if length r > numCols then length r else numCols)
                     (length (Headers opts)) rows;
         widths = replicate numCols (0::int)
     in do {
       widths \<leftarrow> forEach (enumerate 0 (Headers opts)) widths
         (\<lambda>widths (i, h). raiseWidth widths i (RuneCountInString h));
       widths \<leftarrow> forEach rows widths
         (\<lambda>widths r. forEach (enumerate 0 r) widths
            (\<lambda>widths (i, c). raiseWidth widths i (RuneCountInString (applyCellOpts c opts))));
       Some (if MaxColumnWidth opts > 0
             then map (\<lambda>w. if w > MaxColumnWidth opts then MaxColumnWidth opts else w) widths
             else widths)
     })"

section \<open>Plain, Markdown and Simple\<close>

text \<open>The newline and the box-drawing characters of the Plain format, by code point.\<close>

definition NL :: gostring where "NL = [10]"

definition box_h :: gostring where "box_h = [9472]"
definition box_v :: gostring where "box_v = [9474]"
definition box_top_left :: gostring where "box_top_left = [9484]"
definition box_top_mid :: gostring where "box_top_mid = [9516]"
definition box_top_right :: gostring where "box_top_right = [9488]"
definition box_mid_left :: gostring where "box_mid_left = [9500]"
definition box_mid_mid :: gostring where "box_mid_mid = [9532]"
definition box_mid_right :: gostring where "box_mid_right = [9508]"
definition box_bot_left :: gostring where "box_bot_left = [9492]"
definition box_bot_mid :: gostring where "box_bot_mid = [9524]"
definition box_bot_right :: gostring where "box_bot_right = [9496]"

definition buildHorizontalBorder ::
  "int list \<Rightarrow> gostring \<Rightarrow> gostring \<Rightarrow> gostring \<Rightarrow> gostring \<Rightarrow> gostring option" where
  "buildHorizontalBorder widths left mid right fill =
    do { b \<leftarrow> forEach (enumerate 0 widths) left
           (\<lambda>b (i, w). do {
              f \<leftarrow> Repeat fill (w + 2);
              Some (if int i < int (length widths) - 1 then b @ f @ mid else b @ f) });
         Some (b @ right) }"

text \<open>
  The renderers return Go's pair (string, error), or panic. The buffer \<open>b\<close> is the
  text written so far; each \<^verbatim>\<open>b.WriteString(x)\<close> appends \<open>x\<close>.
\<close>

type_synonym rendered = "gostring \<times> error option"

text \<open>
  The cell that the fixed-width renderers write in column \<open>i\<close> of the row \<open>r\<close>, inside a
  loop \<^verbatim>\<open>for i := 0; i < len(widths); i++\<close>:
  \<^verbatim>\<open>v := ""; if i < len(r) { v = r[i] }; v = applyCellOpts(v, opts)\<close> and then
  \<^verbatim>\<open>alignCell(v, widths[i], getAlign(opts, i))\<close>. renderPlain, renderMarkdown and
  renderSimple do this for every data row, and the latter two for the header row as
  well (with \<^verbatim>\<open>opts.Headers\<close> as the row).
\<close>

definition renderCell :: "Options \<Rightarrow> int list \<Rightarrow> gostring list \<Rightarrow> nat \<Rightarrow> gostring option" where
  "renderCell opts widths r i =
    (let v = (if i < length r then r ! i else []);
         v = applyCellOpts v opts
     in do { w \<leftarrow> idx widths i;
             alignCell v w (getAlign opts i) })"

definition renderPlain :: "Options \<Rightarrow> gostring list list \<Rightarrow> rendered option" where
  "renderPlain opts rows =
    do { widths \<leftarrow> colWidths opts rows;
         if length widths = 0 then Some ([], None)
         else do {
           top \<leftarrow> buildHorizontalBorder widths box_top_left box_top_mid box_top_right box_h;
           b \<leftarrow> (if length (Headers opts) > 0 then
                  do { b \<leftarrow> forEach (enumerate 0 (Headers opts)) (top @ NL @ box_v)
                         (\<lambda>b (i, h). do {
                            w \<leftarrow> idx widths i;
                            c \<leftarrow> alignCell (applyCellOpts h opts) w (getAlign opts i);
                            Some (b @ str '' '' @ c @ str '' '' @ box_v) });
                       b \<leftarrow> forEach [length (Headers opts) ..< length widths] b
                         (\<lambda>b i. do {
                            w \<leftarrow> idx widths i;
                            p \<leftarrow> Repeat (str '' '') w;
                            Some (b @ str '' '' @ p @ str '' '' @ box_v) });
                       sep \<leftarrow> buildHorizontalBorder widths
                                box_mid_left box_mid_mid box_mid_right box_h;
                       Some (b @ NL @ sep) }
                else Some top);
           b \<leftarrow> forEach rows b
             (\<lambda>b r. forEach [0 ..< length widths] (b @ NL @ box_v)
                (\<lambda>b i. do {
                   c \<leftarrow> renderCell opts widths r i;
                   Some (b @ str '' '' @ c @ str '' '' @ box_v) }));
           bot \<leftarrow> buildHorizontalBorder widths box_bot_left box_bot_mid box_bot_right box_h;
           Some (b @ NL @ bot @ NL, None) } }"

definition renderMarkdown :: "Options \<Rightarrow> gostring list list \<Rightarrow> rendered option" where
  "renderMarkdown opts rows =
    do { widths \<leftarrow> colWidths opts rows;
         if length widths = 0 then Some ([], None)
         else do {
           b \<leftarrow> forEach [0 ..< length widths] (str ''|'')
             (\<lambda>b i. do {
                h \<leftarrow> renderCell opts widths (Headers opts) i;
                Some (b @ str '' '' @ h @ str '' |'') });
           b \<leftarrow> forEach (enumerate 0 widths) (b @ NL @ str ''|'')
             (\<lambda>b (i, w). do {
                sep \<leftarrow> Repeat (str ''-'') w;
                Some (if getAlign opts i = AlignRight then b @ str '' '' @ sep @ str '':|''
                      else if getAlign opts i = AlignCenter then b @ str '':'' @ sep @ str '':|''
                      else b @ str '' '' @ sep @ str '' |'') });
           b \<leftarrow> forEach rows (b @ NL)
             (\<lambda>b r. do {
                b \<leftarrow> forEach [0 ..< length widths] (b @ str ''|'')
                  (\<lambda>b i. do {
                     c \<leftarrow> renderCell opts widths r i;
                     Some (b @ str '' '' @ c @ str '' |'') });
                Some (b @ NL) });
           Some (b, None) } }"

definition renderSimple :: "Options \<Rightarrow> gostring list list \<Rightarrow> rendered option" where
  "renderSimple opts rows =
    do { widths \<leftarrow> colWidths opts rows;
         if length widths = 0 then Some ([], None)
         else do {
           b \<leftarrow> (if length (Headers opts) > 0 then
                  do { b \<leftarrow> forEach [0 ..< length widths] []
                         (\<lambda>b i. do {
                            h \<leftarrow> renderCell opts widths (Headers opts) i;
                            Some ((if i > 0 then b @ str ''  '' else b) @ h) });
                       b \<leftarrow> forEach (enumerate 0 widths) (b @ NL)
                         (\<lambda>b (i, w). do {
                            sep \<leftarrow> Repeat (str ''-'') w;
                            Some ((if i > 0 then b @ str ''  '' else b) @ sep) });
                       Some (b @ NL) }
                else Some []);
           b \<leftarrow> forEach rows b
             (\<lambda>b r. do {
                b \<leftarrow> forEach [0 ..< length widths] b
                  (\<lambda>b i. do {
                     c \<leftarrow> renderCell opts widths r i;
                     Some ((if i > 0 then b @ str ''  '' else b) @ c) });
                Some (b @ NL) });
           Some (b, None) } }"

section \<open>CSV\<close>

text \<open>strings.Join, strings.ContainsAny and strings.ReplaceAll of the Go library.\<close>

fun Join :: "gostring list \<Rightarrow> gostring \<Rightarrow> gostring" where
  "Join [] sep = []"
| "Join [x] sep = x"
| "Join (x # y # ys) sep = x @ sep @ Join (y # ys) sep"

definition ContainsAny :: "gostring \<Rightarrow> gostring \<Rightarrow> bool" where
  "ContainsAny s chars = list_ex (\<lambda>c. c \<in> set chars) s"

text \<open>
  ReplaceAll replaces the non-overlapping occurrences of \<open>old\<close> from left to right; for
  an empty \<open>old\<close> it puts \<open>new\<close> before every code point and at the end.
\<close>

fun replaceFrom :: "gostring \<Rightarrow> gostring \<Rightarrow> gostring \<Rightarrow> gostring" where
  "replaceFrom [] old new = []"
| "replaceFrom (c # cs) old new =
    (if take (length old) (c # cs) = old
     then new @ replaceFrom (drop (length old - 1) cs) old new
     else c # replaceFrom cs old new)"

definition ReplaceAll :: "gostring \<Rightarrow> gostring \<Rightarrow> gostring \<Rightarrow> gostring" where
  "ReplaceAll s old new =
    (if old = [] then new @ concat (map (\<lambda>c. c # new) s) else replaceFrom s old new)"

definition csvRow :: "gostring list \<Rightarrow> gostring" where
  \<open>csvRow cols =
    (let escaped = map (\<lambda>c. if ContainsAny c (str ''",'' @ NL)
                             then str ''"'' @ ReplaceAll c (str ''"'') (str ''""'') @ str ''"''
                             else c) cols
     in Join escaped (str '',''))\<close>

text \<open>renderCSV and renderJSON index nothing out of range and repeat nothing: no panic.\<close>

definition renderCSV :: "Options \<Rightarrow> gostring list list \<Rightarrow> rendered" where
  "renderCSV opts rows =
    (let b = (if length (Headers opts) > 0 then csvRow (Headers opts) @ NL else []);
         b = foldl (\<lambda>b r. b @ csvRow (map (\<lambda>v. applyCellOpts v opts) r) @ NL) b rows
     in (b, None))"

section \<open>JSON\<close>

text \<open>
  A \<^verbatim>\<open>map[string]string\<close> is an association list with one entry for each key;
  \<open>mapAssign k v m\<close> is the assignment \<^verbatim>\<open>m[k] = v\<close>.
\<close>

type_synonym gomap = "(gostring \<times> gostring) list"

fun mapAssign :: "gostring \<Rightarrow> gostring \<Rightarrow> gomap \<Rightarrow> gomap" where
  "mapAssign k v [] = [(k, v)]"
| "mapAssign k v ((k', v') # m) =
    (if k' = k then (k, v) # m else (k', v') # mapAssign k v m)"

text \<open>
  encoding/json of the Go library, as far as renderJSON uses it (Go 1.22 and later).
  A string is written between double quotes, with the escapes of \<^verbatim>\<open>appendString\<close> under
  HTML escaping: a backslash before backslash and double quote; the short escapes of
  backspace, form feed, newline, carriage return and tab; \<^verbatim>\<open>\u00XX\<close> for the other control
  characters and for \<^verbatim>\<open><\<close>, \<^verbatim>\<open>>\<close> and \<^verbatim>\<open>&\<close>; \<^verbatim>\<open>\u2028\<close> and \<^verbatim>\<open>\u2029\<close> for U+2028 and U+2029.
\<close>

definition hex :: "nat \<Rightarrow> rune" where
  "hex n = str ''0123456789abcdef'' ! n"

definition escapeRune :: "rune \<Rightarrow> gostring" where
  "escapeRune c =
    (if c = 92 \<or> c = 34 then [92, c]
     else if c = 8 then [92] @ str ''b''
     else if c = 12 then [92] @ str ''f''
     else if c = 10 then [92] @ str ''n''
     else if c = 13 then [92] @ str ''r''
     else if c = 9 then [92] @ str ''t''
     else if c < 32 \<or> c = 60 \<or> c = 62 \<or> c = 38
       then [92] @ str ''u00'' @ [hex (c div 16), hex (c mod 16)]
     else if c = 8232 \<or> c = 8233 then [92] @ str ''u202'' @ [hex (c mod 16)]
     else [c])"

definition encodeString :: "gostring \<Rightarrow> gostring" where
  "encodeString s = [34] @ concat (map escapeRune s) @ [34]"

text \<open>
  A map is written as an object whose members are its entries sorted by key
  (\<^verbatim>\<open>strings.Compare\<close>, the order of the UTF-8 bytes, which is the lexicographic order of
  the code points): \<open>objectEntries\<close>. MarshalIndent with prefix \<^verbatim>\<open>""\<close> and indent
  \<^verbatim>\<open>"  "\<close> puts every element of the array and every member of an object on a line of
  its own, indented by its depth; an empty array is \<^verbatim>\<open>[]\<close> and an empty object
  \<^verbatim>\<open>{}\<close>. Strings never make it fail, so its error is \<^verbatim>\<open>nil\<close>.
\<close>

definition objectEntries :: "gomap \<Rightarrow> (gostring \<times> gostring) list" where
  "objectEntries m = sort_key fst m"

definition encodeObject :: "(gostring \<times> gostring) list \<Rightarrow> gostring" where
  "encodeObject entries =
    (if entries = [] then str ''{}''
     else str ''{'' @ NL
        @ Join (map (\<lambda>(k, v). str ''    '' @ encodeString k @ str '': '' @ encodeString v)
                  entries) (str '','' @ NL)
        @ NL @ str ''  }'')"

definition encodeArray :: "(gostring \<times> gostring) list list \<Rightarrow> gostring" where
  "encodeArray objects =
    (if objects = [] then str ''[]''
     else str ''['' @ NL
        @ Join (map (\<lambda>entries. str ''  '' @ encodeObject entries) objects) (str '','' @ NL)
        @ NL @ str '']'')"

definition MarshalIndent :: "gomap list \<Rightarrow> gostring \<times> error option" where
  "MarshalIndent result = (encodeArray (map objectEntries result), None)"

text \<open>renderJSON: \<open>jsonObject\<close> is the map that the inner loop builds for the row \<open>r\<close>.\<close>

definition jsonObject :: "Options \<Rightarrow> gostring list \<Rightarrow> gomap" where
  "jsonObject opts r =
    foldl (\<lambda>obj (i, h). mapAssign h (if i < length r then applyCellOpts (r ! i) opts else []) obj)
      [] (enumerate 0 (Headers opts))"

definition renderJSON :: "Options \<Rightarrow> gostring list list \<Rightarrow> rendered" where
  "renderJSON opts rows =
    (if length (Headers opts) = 0 then ([], Some ErrMissingHeaders)
     else
       (let result = foldl (\<lambda>result r. result @ [jsonObject opts r]) [] rows
        in case MarshalIndent result of
             (data, Some err) \<Rightarrow> ([], Some (ErrJSONMarshal err))
           | (data, None) \<Rightarrow> (data @ NL, None)))"

section \<open>render\<close>

definition render :: "Options \<Rightarrow> gostring list list \<Rightarrow> rendered option" where
  "render opts rows =
    (if Format opts = FormatMarkdown then renderMarkdown opts rows
     else if Format opts = FormatCSV then Some (renderCSV opts rows)
     else if Format opts = FormatJSON then Some (renderJSON opts rows)
     else if Format opts = FormatSimple then renderSimple opts rows
     else renderPlain opts rows)"

section \<open>Auxiliary notions of the properties\<close>

definition newline :: rune where "newline = 10"

text \<open>
  The invariant of the width vector inside colWidths: it has \<open>n\<close> entries, none of
  them negative.
\<close>

definition widths_ok :: "nat \<Rightarrow> int list \<Rightarrow> bool" where
  "widths_ok n ws \<longleftrightarrow> length ws = n \<and> list_all (\<lambda>w. 0 \<le> w) ws"

section \<open>Properties\<close>

lemma str_simps: "str [] = []" "str (c # cs) = of_char c # str cs"
  by (simp_all add: str_def)

lemma length_str: "length (str s) = length s"
  by (simp add: str_def)

lemmas options_defs =
  DefaultOptions_def WithHeaders_def WithFormat_def WithAlignments_def
  WithMaxColumnWidth_def WithNullPlaceholder_def WithStrictColumnCount_def

lemmas format_defs =
  FormatPlain_def FormatMarkdown_def FormatCSV_def FormatJSON_def FormatSimple_def

lemmas align_defs = AlignLeft_def AlignCenter_def AlignRight_def

subsection \<open>Truncation\<close>

text \<open>
  C4. Let \<open>n\<close> be MaxColumnWidth, \<open>s\<close> the cell after the null placeholder has been
  substituted for an empty cell, and \<open>c\<close> the normalized cell. If \<open>n > 3\<close> and \<open>s\<close> has
  more than \<open>n\<close> code points, \<open>c\<close> has exactly \<open>n\<close> code points and is the first \<open>n - 3\<close>
  code points of \<open>s\<close> followed by "..."; if \<open>0 < n \<le> 3\<close> and \<open>s\<close> has more than \<open>n\<close> code
  points, \<open>c\<close> is exactly the first \<open>n\<close> code points of \<open>s\<close>, nothing appended; if \<open>n = 0\<close>
  or \<open>s\<close> has at most \<open>n\<close> code points, \<open>c\<close> is \<open>s\<close>.
\<close>

theorem applyCellOpts_truncation:
  "let n = MaxColumnWidth opts;
       s = (if v = [] \<and> NullPlaceholder opts \<noteq> [] then NullPlaceholder opts else v);
       c = applyCellOpts v opts
   in (n > 3 \<and> RuneCountInString s > n \<longrightarrow>
         RuneCountInString c = n \<and> c = take (nat (n - 3)) s @ str ''...'')
    \<and> (0 < n \<and> n \<le> 3 \<and> RuneCountInString s > n \<longrightarrow>
         RuneCountInString c = n \<and> c = take (nat n) s)
    \<and> (n = 0 \<or> RuneCountInString s \<le> n \<longrightarrow> c = s)"
  by (auto simp: applyCellOpts_def RuneCountInString_def Let_def length_str min_def)

theorem applyCellOpts_truncation_witness:
  "applyCellOpts (str ''This is a very long string'')
      (WithMaxColumnWidth (WithHeaders DefaultOptions [str ''Text'']) 10) = str ''This is...''
   \<and> applyCellOpts []
      (WithMaxColumnWidth (WithNullPlaceholder DefaultOptions (str ''N/A'')) 2) = str ''N/''
   \<and> applyCellOpts (str ''Alice'')
      (WithNullPlaceholder DefaultOptions (str ''N/A'')) = str ''Alice''"
  using
    applyCellOpts_truncation
      [of "WithMaxColumnWidth (WithHeaders DefaultOptions [str ''Text'']) 10"
          "str ''This is a very long string''"]
    applyCellOpts_truncation
      [of "WithMaxColumnWidth (WithNullPlaceholder DefaultOptions (str ''N/A'')) 2" "[]"]
    applyCellOpts_truncation
      [of "WithNullPlaceholder DefaultOptions (str ''N/A'')" "str ''Alice''"]
  by (simp add: Let_def RuneCountInString_def str_simps options_defs)

subsection \<open>AddRow\<close>

text \<open>
  C5. AddRow fails with ErrColumnMismatch exactly when StrictColumnCount is set, the
  headers are not empty and the number of cells differs from the number of headers. It
  returns no other error; when it fails the table (its rows and its row count) is
  unchanged, and when it succeeds the cells are appended as the last row, the row count
  grows by one and the options are unchanged.
\<close>

theorem AddRow_strict:
  "(snd (AddRow t cells) = Some ErrColumnMismatch \<longleftrightarrow>
      StrictColumnCount (tbl_opts t) \<and> Headers (tbl_opts t) \<noteq> []
      \<and> length cells \<noteq> length (Headers (tbl_opts t)))
   \<and> (snd (AddRow t cells) \<noteq> None \<longrightarrow>
        snd (AddRow t cells) = Some ErrColumnMismatch
        \<and> fst (AddRow t cells) = t
        \<and> RowCount (fst (AddRow t cells)) = RowCount t)
   \<and> (snd (AddRow t cells) = None \<longrightarrow>
        tbl_rows (fst (AddRow t cells)) = tbl_rows t @ [cells]
        \<and> RowCount (fst (AddRow t cells)) = RowCount t + 1
        \<and> tbl_opts (fst (AddRow t cells)) = tbl_opts t)"
  by (simp add: AddRow_def RowCount_def Let_def)

theorem AddRow_strict_witness:
  "AddRow (New (WithStrictColumnCount (WithHeaders DefaultOptions [str ''A'', str ''B'', str ''C''])))
      [str ''x'', str ''y'']
     = (New (WithStrictColumnCount (WithHeaders DefaultOptions [str ''A'', str ''B'', str ''C''])),
        Some ErrColumnMismatch)
   \<and> tbl_rows (fst (AddRow
        (New (WithStrictColumnCount (WithHeaders DefaultOptions [str ''A'', str ''B''])))
        [str ''x'', str ''y''])) = [[str ''x'', str ''y'']]
   \<and> RowCount (fst (AddRow
        (New (WithStrictColumnCount (WithHeaders DefaultOptions [str ''A'', str ''B''])))
        [str ''x'', str ''y''])) = 1"
proof -
  let ?t3 = "New (WithStrictColumnCount (WithHeaders DefaultOptions [str ''A'', str ''B'', str ''C'']))"
  let ?t2 = "New (WithStrictColumnCount (WithHeaders DefaultOptions [str ''A'', str ''B'']))"
  let ?cells = "[str ''x'', str ''y'']"
  have strict3: "StrictColumnCount (tbl_opts ?t3) \<and> Headers (tbl_opts ?t3) \<noteq> []
      \<and> length ?cells \<noteq> length (Headers (tbl_opts ?t3))"
    by (simp add: New_def options_defs)
  have ok2: "\<not> (StrictColumnCount (tbl_opts ?t2) \<and> Headers (tbl_opts ?t2) \<noteq> []
      \<and> length ?cells \<noteq> length (Headers (tbl_opts ?t2)))"
    by (simp add: New_def options_defs)
  have rows2: "tbl_rows ?t2 = []" "RowCount ?t2 = 0"
    by (simp_all add: New_def RowCount_def)
  from strict3 AddRow_strict [of ?t3 ?cells]
  have e3: "snd (AddRow ?t3 ?cells) = Some ErrColumnMismatch"
    by blast
  with AddRow_strict [of ?t3 ?cells]
  have "fst (AddRow ?t3 ?cells) = ?t3"
    by blast
  with e3 have first: "AddRow ?t3 ?cells = (?t3, Some ErrColumnMismatch)"
    by (metis prod.collapse)
  from ok2 AddRow_strict [of ?t2 ?cells]
  have "snd (AddRow ?t2 ?cells) = None"
    by blast
  with AddRow_strict [of ?t2 ?cells]
  have "tbl_rows (fst (AddRow ?t2 ?cells)) = tbl_rows ?t2 @ [?cells]"
      "RowCount (fst (AddRow ?t2 ?cells)) = RowCount ?t2 + 1"
    by blast+
  with rows2 have second: "tbl_rows (fst (AddRow ?t2 ?cells)) = [?cells]"
      "RowCount (fst (AddRow ?t2 ?cells)) = 1"
    by simp_all
  from first second show ?thesis by blast
qed

subsection \<open>Loops\<close>

lemma forEach_Some:
  assumes "\<And>s x. x \<in> set xs \<Longrightarrow> body s x \<noteq> None"
  shows "forEach xs s body \<noteq> None"
  using assms by (induction xs arbitrary: s) (auto split: option.splits)

lemma forEach_inv:
  assumes "forEach xs s body = Some s'" and "P s"
    and "\<And>s x t. x \<in> set xs \<Longrightarrow> P s \<Longrightarrow> body s x = Some t \<Longrightarrow> P t"
  shows "P s'"
  using assms
proof (induction xs arbitrary: s)
  case Nil
  then show ?case by simp
next
  case (Cons x xs)
  from Cons.prems(1) obtain t where t: "body s x = Some t" "forEach xs t body = Some s'"
    by (auto split: option.splits)
  have "P t" using Cons.prems(3) [of x s t] Cons.prems(2) t(1) by simp
  show ?case
  proof (rule Cons.IH [OF t(2) \<open>P t\<close>])
    fix s1 y t1
    assume "y \<in> set xs" "P s1" "body s1 y = Some t1"
    then show "P t1" using Cons.prems(3) [of y s1 t1] by simp
  qed
qed

lemma forEach_inv_Some:
  assumes "P s" and "\<And>s x. x \<in> set xs \<Longrightarrow> P s \<Longrightarrow> \<exists>t. body s x = Some t \<and> P t"
  shows "\<exists>t. forEach xs s body = Some t \<and> P t"
  using assms
proof (induction xs arbitrary: s)
  case Nil
  then show ?case by simp
next
  case (Cons x xs)
  from Cons.prems(2) [of x s] Cons.prems(1) obtain t where t: "body s x = Some t" "P t"
    by auto
  from Cons.IH [OF t(2)] Cons.prems(2) obtain u where "forEach xs t body = Some u \<and> P u"
    by auto
  with t(1) show ?case by simp
qed

subsection \<open>colWidths never panics\<close>

lemma numCols_ge_start:
  "n \<le> foldl (\<lambda>numCols r. if length r > numCols then length r else numCols) n rows"
proof (induction rows arbitrary: n)
  case Nil
  then show ?case by simp
next
  case (Cons r rows)
  show ?case using Cons.IH [of "if length r > n then length r else n"]
    by (simp split: if_splits)
qed

lemma numCols_ge_row:
  "r \<in> set rows \<Longrightarrow>
   length r \<le> foldl (\<lambda>numCols r. if length r > numCols then length r else numCols) n rows"
proof (induction rows arbitrary: n)
  case Nil
  then show ?case by simp
next
  case (Cons a rows)
  show ?case
  proof (cases "r = a")
    case True
    then show ?thesis
      using numCols_ge_start [of "if length a > n then length a else n" rows]
      by (simp split: if_splits)
  next
    case False
    with Cons.prems have "r \<in> set rows" by simp
    from Cons.IH [OF this] show ?thesis by simp
  qed
qed


lemma raiseWidth_ok:
  assumes "widths_ok n ws" and "i < n" and "0 \<le> w"
  shows "\<exists>ws'. raiseWidth ws i w = Some ws' \<and> widths_ok n ws'"
  using assms
  by (auto simp: raiseWidth_def idx_def widths_ok_def list_all_iff dest: set_update_subset_insert [THEN subsetD])

lemma measure_loop_ok:
  fixes cells :: "'a list"
  assumes "widths_ok n ws" and "length cells \<le> n"
  shows "\<exists>ws'. forEach (enumerate 0 cells) ws
            (\<lambda>widths (i, c). raiseWidth widths i (RuneCountInString (f c))) = Some ws'
          \<and> widths_ok n ws'"
proof (rule forEach_inv_Some [where P = "widths_ok n"])
  show "widths_ok n ws" by fact
next
  fix s :: "int list" and x :: "nat \<times> 'a"
  assume x: "x \<in> set (enumerate 0 cells)" and s: "widths_ok n s"
  obtain i c where ic: "x = (i, c)" by (cases x)
  with x have "i < length cells" by (simp add: in_set_enumerate_eq)
  with assms(2) have "i < n" by simp
  from raiseWidth_ok [OF s this, of "RuneCountInString (f c)"]
  show "\<exists>t. (case x of (i, c) \<Rightarrow> raiseWidth s i (RuneCountInString (f c))) = Some t \<and> widths_ok n t"
    by (simp add: ic RuneCountInString_def)
qed

lemma colWidths_Some:
  "\<exists>ws. colWidths opts rows = Some ws
     \<and> length (Headers opts) \<le> length ws
     \<and> list_all (\<lambda>r. length r \<le> length ws) rows
     \<and> list_all (\<lambda>w. 0 \<le> w) ws"
proof -
  define n where "n = foldl (\<lambda>numCols r. if length r > numCols then length r else numCols)
                     (length (Headers opts)) rows"
  have hn: "length (Headers opts) \<le> n"
    unfolding n_def by (rule numCols_ge_start)
  have rn: "\<And>r. r \<in> set rows \<Longrightarrow> length r \<le> n"
    unfolding n_def by (rule numCols_ge_row)
  have "widths_ok n (replicate n 0)"
    by (simp add: widths_ok_def list_all_iff)
  from measure_loop_ok [OF this hn, of "\<lambda>h. h"]
  obtain ws1 where ws1: "forEach (enumerate 0 (Headers opts)) (replicate n 0)
      (\<lambda>widths (i, h). raiseWidth widths i (RuneCountInString h)) = Some ws1"
    and ok1: "widths_ok n ws1"
    by auto
  have "\<exists>ws2. forEach rows ws1
         (\<lambda>widths r. forEach (enumerate 0 r) widths
            (\<lambda>widths (i, c). raiseWidth widths i (RuneCountInString (applyCellOpts c opts))))
          = Some ws2 \<and> widths_ok n ws2"
  proof (rule forEach_inv_Some [where P = "widths_ok n"])
    show "widths_ok n ws1" by fact
  next
    fix s :: "int list" and r
    assume "r \<in> set rows" and s: "widths_ok n s"
    then have "length r \<le> n" using rn by simp
    from measure_loop_ok [OF s this, of "\<lambda>c. applyCellOpts c opts"]
    show "\<exists>t. forEach (enumerate 0 r) s
            (\<lambda>widths (i, c). raiseWidth widths i (RuneCountInString (applyCellOpts c opts)))
           = Some t \<and> widths_ok n t" .
  qed
  then obtain ws2 where ws2: "forEach rows ws1
         (\<lambda>widths r. forEach (enumerate 0 r) widths
            (\<lambda>widths (i, c). raiseWidth widths i (RuneCountInString (applyCellOpts c opts))))
          = Some ws2" and ok2: "widths_ok n ws2"
    by auto
  let ?ws = "if MaxColumnWidth opts > 0
             then map (\<lambda>w. if w > MaxColumnWidth opts then MaxColumnWidth opts else w) ws2
             else ws2"
  have res: "colWidths opts rows = Some ?ws"
    unfolding colWidths_def Let_def n_def [symmetric] by (simp add: ws1 ws2)
  have "widths_ok n ?ws"
    using ok2 by (auto simp: widths_ok_def list_all_iff)
  with hn rn res show ?thesis
    by (auto simp: widths_ok_def list_all_iff)
qed


lemma Repeat_Some: "0 \<le> n \<Longrightarrow> Repeat s n \<noteq> None"
  by (simp add: Repeat_def)

subsection \<open>The fixed-width renderers never panic\<close>

lemma bind_ne_None:
  "m \<noteq> None \<Longrightarrow> (\<And>x. f x \<noteq> None) \<Longrightarrow> Option.bind m f \<noteq> None"
  by (cases m) simp_all

lemma if_ne_None:
  "(c \<Longrightarrow> a \<noteq> None) \<Longrightarrow> (\<not> c \<Longrightarrow> b \<noteq> None) \<Longrightarrow> (if c then a else b) \<noteq> None"
  by simp

lemmas loop_intros =
  bind_ne_None [where m = "forEach xs s body" for xs s body]
  bind_ne_None [where m = "buildHorizontalBorder ws l m r f" for ws l m r f]
  bind_ne_None [where m = "if c then a else b" for c a b]

lemma half_pad: "0 < (p::int) \<Longrightarrow> 0 \<le> p div 2 \<and> 0 \<le> p - p div 2"
  by arith

lemma alignCell_Some: "alignCell s w a \<noteq> None"
proof (cases "w - RuneCountInString s \<le> 0")
  case True
  then show ?thesis by (simp add: alignCell_def Let_def)
next
  case False
  with half_pad [of "w - RuneCountInString s"] show ?thesis
    by (simp add: alignCell_def Let_def Repeat_def)
qed

lemma renderCell_Some: "i < length ws \<Longrightarrow> renderCell opts ws r i \<noteq> None"
  by (simp add: renderCell_def Let_def idx_def alignCell_Some)

lemma buildHorizontalBorder_Some:
  assumes "list_all (\<lambda>w. 0 \<le> w) ws"
  shows "buildHorizontalBorder ws l m r f \<noteq> None"
proof -
  have "forEach (enumerate 0 ws) l
          (\<lambda>b (i, w). do {
              f \<leftarrow> Repeat f (w + 2);
              Some (if int i < int (length ws) - 1 then b @ f @ m else b @ f) }) \<noteq> None"
  proof (rule forEach_Some)
    fix s :: gostring and x :: "nat \<times> int"
    assume "x \<in> set (enumerate 0 ws)"
    then have "0 \<le> snd x" using assms
      by (auto simp: in_set_enumerate_eq list_all_length)
    then show "(case x of (i, w) \<Rightarrow> do {
              f \<leftarrow> Repeat f (w + 2);
              Some (if int i < int (length ws) - 1 then s @ f @ m else s @ f) }) \<noteq> None"
      by (cases x) (simp add: Repeat_def)
  qed
  then show ?thesis
    by (simp add: buildHorizontalBorder_def bind_ne_None del: not_None_eq)
qed

lemma renderPlain_Some: "renderPlain opts rows \<noteq> None"
proof -
  obtain ws where cw: "colWidths opts rows = Some ws"
    and h: "length (Headers opts) \<le> length ws"
    and nonneg: "list_all (\<lambda>w. 0 \<le> w) ws"
    using colWidths_Some [of opts rows] by blast
  note border = buildHorizontalBorder_Some [OF nonneg]
  have w: "\<And>i. i < length ws \<Longrightarrow> 0 \<le> ws ! i"
    using nonneg by (simp add: list_all_length)
  show ?thesis
    unfolding renderPlain_def
    using h
    apply (simp add: cw del: not_None_eq)
    apply (intro impI conjI if_ne_None loop_intros forEach_Some border)
    apply (simp_all del: not_None_eq
          add: idx_def alignCell_Some renderCell_Some Repeat_def w in_set_enumerate_eq
            Option.bind_eq_None_conv
          split: prod.splits)
    apply (auto simp: not_less dest: w)
    done
qed


lemma renderMarkdown_Some: "renderMarkdown opts rows \<noteq> None"
proof -
  obtain ws where cw: "colWidths opts rows = Some ws"
    and nonneg: "list_all (\<lambda>w. 0 \<le> w) ws"
    using colWidths_Some [of opts rows] by blast
  have w: "\<And>i. i < length ws \<Longrightarrow> 0 \<le> ws ! i"
    using nonneg by (simp add: list_all_length)
  show ?thesis
    unfolding renderMarkdown_def
    apply (simp add: cw del: not_None_eq)
    apply (intro impI conjI if_ne_None loop_intros forEach_Some)
    apply (simp_all del: not_None_eq
          add: renderCell_Some Repeat_def w in_set_enumerate_eq Option.bind_eq_None_conv
          split: prod.splits)
    apply (auto simp: not_less dest: w)
    done
qed

lemma renderSimple_Some: "renderSimple opts rows \<noteq> None"
proof -
  obtain ws where cw: "colWidths opts rows = Some ws"
    and nonneg: "list_all (\<lambda>w. 0 \<le> w) ws"
    using colWidths_Some [of opts rows] by blast
  have w: "\<And>i. i < length ws \<Longrightarrow> 0 \<le> ws ! i"
    using nonneg by (simp add: list_all_length)
  show ?thesis
    unfolding renderSimple_def
    apply (simp add: cw del: not_None_eq)
    apply (intro impI conjI if_ne_None loop_intros forEach_Some)
    apply (simp_all del: not_None_eq
          add: renderCell_Some Repeat_def w in_set_enumerate_eq Option.bind_eq_None_conv
          split: prod.splits)
    apply (auto simp: not_less dest: w)
    done
qed

lemma renderPlain_nil: "renderPlain opts rows = Some (s, e) \<Longrightarrow> e = None"
  by (auto simp: renderPlain_def split: Option.bind_splits if_splits)

lemma renderMarkdown_nil: "renderMarkdown opts rows = Some (s, e) \<Longrightarrow> e = None"
  by (auto simp: renderMarkdown_def split: Option.bind_splits if_splits)

lemma renderSimple_nil: "renderSimple opts rows = Some (s, e) \<Longrightarrow> e = None"
  by (auto simp: renderSimple_def split: Option.bind_splits if_splits)

lemma renderCSV_nil: "snd (renderCSV opts rows) = None"
  by (simp add: renderCSV_def Let_def)


lemma renderPlain_newline:
  "renderPlain opts rows = Some (s, e) \<Longrightarrow> s = [] \<or> (\<exists>t. s = t @ NL)"
  by (auto simp: renderPlain_def split: Option.bind_splits if_splits)

lemma renderMarkdown_newline:
  assumes "renderMarkdown opts rows = Some (s, e)"
  shows "s = [] \<or> (\<exists>t. s = t @ NL)"
proof -
  have "\<exists>t. s = t @ NL" if "s \<noteq> []"
  proof -
    from assms that obtain ws b where
      loop: "forEach rows (b @ NL)
        (\<lambda>b r. do {
           b \<leftarrow> forEach [0 ..< length ws] (b @ str ''|'')
             (\<lambda>b i. do {
                c \<leftarrow> renderCell opts ws r i;
                Some (b @ str '' '' @ c @ str '' |'') });
           Some (b @ NL) }) = Some s"
      by (auto simp: renderMarkdown_def split: Option.bind_splits if_splits)
    show ?thesis
      by (rule forEach_inv [OF loop, where P = "\<lambda>b. \<exists>t. b = t @ NL"])
        (auto split: Option.bind_splits)
  qed
  then show ?thesis by blast
qed

lemma renderSimple_newline:
  assumes "renderSimple opts rows = Some (s, e)"
  shows "s = [] \<or> (\<exists>t. s = t @ NL)"
proof -
  from assms obtain ws b where
    start: "b = [] \<or> (\<exists>t. b = t @ NL)" and
    loop: "s = [] \<or> forEach rows b
      (\<lambda>b r. do {
         b \<leftarrow> forEach [0 ..< length ws] b
           (\<lambda>b i. do {
              c \<leftarrow> renderCell opts ws r i;
              Some ((if i > 0 then b @ str ''  '' else b) @ c) });
         Some (b @ NL) }) = Some s"
    by (auto simp: renderSimple_def split: Option.bind_splits if_splits)
  show ?thesis
  proof (cases "s = []")
    case True
    then show ?thesis by simp
  next
    case False
    with loop have loop': "forEach rows b
      (\<lambda>b r. do {
         b \<leftarrow> forEach [0 ..< length ws] b
           (\<lambda>b i. do {
              c \<leftarrow> renderCell opts ws r i;
              Some ((if i > 0 then b @ str ''  '' else b) @ c) });
         Some (b @ NL) }) = Some s" by simp
    show ?thesis
      by (rule forEach_inv [OF loop', where P = "\<lambda>b. b = [] \<or> (\<exists>t. b = t @ NL)"])
        (use start in \<open>auto split: Option.bind_splits\<close>)
  qed
qed

lemma foldl_write:
  "foldl (\<lambda>b x. b @ g x) b xs = b @ concat (map g xs)"
  by (induction xs arbitrary: b) simp_all

lemma concat_lines_newline:
  "concat (map (\<lambda>x. g x @ NL) xs) = [] \<or> (\<exists>t. concat (map (\<lambda>x. g x @ NL) xs) = t @ NL)"
  by (induction xs rule: rev_induct) simp_all

lemma renderCSV_lines:
  "fst (renderCSV opts rows) =
     (if Headers opts = [] then [] else csvRow (Headers opts) @ NL)
     @ concat (map (\<lambda>r. csvRow (map (\<lambda>v. applyCellOpts v opts) r) @ NL) rows)"
  by (simp add: renderCSV_def Let_def foldl_write)

lemma renderCSV_newline:
  "fst (renderCSV opts rows) = [] \<or> (\<exists>t. fst (renderCSV opts rows) = t @ NL)"
proof (cases rows rule: rev_cases)
  case Nil
  then show ?thesis by (simp add: renderCSV_lines)
next
  case (snoc rs r)
  then show ?thesis
    by (simp add: renderCSV_lines)
qed

lemma MarshalIndent_nil: "snd (MarshalIndent result) = None"
  by (simp add: MarshalIndent_def)

lemma foldl_append_each:
  "foldl (\<lambda>result r. result @ [f r]) acc rows = acc @ map f rows"
  by (induction rows arbitrary: acc) simp_all

lemma renderJSON_cases:
  "renderJSON opts rows =
    (if Headers opts = [] then ([], Some ErrMissingHeaders)
     else (encodeArray (map (\<lambda>r. objectEntries (jsonObject opts r)) rows) @ NL, None))"
  by (simp add: renderJSON_def MarshalIndent_def Let_def foldl_append_each comp_def)


subsection \<open>Errors of render\<close>

text \<open>
  C7. For every configuration whose format is not JSON (Plain, Markdown, CSV, Simple,
  and any other value of the integer type, which render treats as Plain) and for all
  rows, whatever their lengths, render returns a string and a nil error, without a
  panic; so a call of render that returns an error has the JSON format.
\<close>

theorem render_nil_error:
  "(Format opts \<noteq> FormatJSON \<longrightarrow> (\<exists>s. render opts rows = Some (s, None)))
   \<and> (\<forall>s e. render opts rows = Some (s, Some e) \<longrightarrow> Format opts = FormatJSON)"
proof -
  have total: "\<exists>s. render opts rows = Some (s, None)" if "Format opts \<noteq> FormatJSON"
  proof -
    consider (md) "Format opts = FormatMarkdown" | (csv) "Format opts = FormatCSV"
      | (simple) "Format opts = FormatSimple"
      | (plain) "Format opts \<noteq> FormatMarkdown" "Format opts \<noteq> FormatCSV"
          "Format opts \<noteq> FormatSimple"
      by blast
    then show ?thesis
    proof cases
      case md
      from renderMarkdown_Some [of opts rows] obtain s e
        where r: "renderMarkdown opts rows = Some (s, e)" by auto
      with renderMarkdown_nil [OF r] md show ?thesis by (simp add: render_def)
    next
      case csv
      have "renderCSV opts rows = (fst (renderCSV opts rows), None)"
        using renderCSV_nil [of opts rows] by (simp add: prod_eq_iff)
      with csv show ?thesis by (auto simp: render_def format_defs)
    next
      case simple
      from renderSimple_Some [of opts rows] obtain s e
        where r: "renderSimple opts rows = Some (s, e)" by auto
      with renderSimple_nil [OF r] simple show ?thesis by (simp add: render_def format_defs)
    next
      case plain
      from renderPlain_Some [of opts rows] obtain s e
        where r: "renderPlain opts rows = Some (s, e)" by auto
      with renderPlain_nil [OF r] plain that show ?thesis by (simp add: render_def)
    qed
  qed
  then show ?thesis by fastforce
qed

text \<open>
  C8. With the JSON format render returns ErrMissingHeaders if and only if the headers
  are empty; it then returns the empty string, whatever the rows are (no row is looked
  at); and with any other format render never returns ErrMissingHeaders.
\<close>

theorem render_MissingHeaders:
  "(Format opts = FormatJSON \<longrightarrow>
      ((\<exists>s. render opts rows = Some (s, Some ErrMissingHeaders)) \<longleftrightarrow> Headers opts = []))
   \<and> (Format opts = FormatJSON \<and> Headers opts = [] \<longrightarrow>
        render opts rows = Some ([], Some ErrMissingHeaders))
   \<and> (Format opts \<noteq> FormatJSON \<longrightarrow>
        (\<forall>s. render opts rows \<noteq> Some (s, Some ErrMissingHeaders)))"
proof -
  have json: "render opts rows = Some (renderJSON opts rows)" if "Format opts = FormatJSON"
    using that by (simp add: render_def format_defs)
  have other: "render opts rows \<noteq> Some (s, Some e)" if "Format opts \<noteq> FormatJSON" for s e
    using that renderPlain_nil [of opts rows s "Some e"] renderMarkdown_nil [of opts rows s "Some e"]
      renderSimple_nil [of opts rows s "Some e"] renderCSV_nil [of opts rows]
    by (auto simp: render_def)
  show ?thesis
    using json other by (auto simp: renderJSON_cases)
qed

subsection \<open>The trailing newline\<close>

text \<open>
  C10. Whenever render returns a nil error and a non-empty string, in any format, the
  string ends with a newline.
\<close>

theorem render_trailing_newline:
  assumes "render opts rows = Some (s, None)" and "s \<noteq> []"
  shows "\<exists>t. s = t @ NL"
proof -
  have "s = [] \<or> (\<exists>t. s = t @ NL)"
    using assms(1) renderPlain_newline [of opts rows s None]
      renderMarkdown_newline [of opts rows s None]
      renderSimple_newline [of opts rows s None]
      renderCSV_newline [of opts rows]
    by (auto simp: render_def renderJSON_cases split: if_splits)
  with assms(2) show ?thesis by simp
qed

subsection \<open>CSV\<close>







subsection \<open>Instances of the render theorems\<close>

theorem render_nil_error_witness:
  "(\<exists>s. render (WithFormat DefaultOptions FormatPlain) [[str ''a'', str ''b''], [], [str ''c'']]
        = Some (s, None))
   \<and> (\<exists>s. render (WithFormat (WithHeaders DefaultOptions [str ''A'']) FormatMarkdown)
              [[], [str ''a'', str ''b'', str ''c'']] = Some (s, None))
   \<and> (\<exists>s. render (WithFormat DefaultOptions FormatCSV) [[]] = Some (s, None))
   \<and> (\<exists>s. render (WithFormat DefaultOptions FormatSimple) [] = Some (s, None))"
  using
    render_nil_error [of "WithFormat DefaultOptions FormatPlain"
      "[[str ''a'', str ''b''], [], [str ''c'']]"]
    render_nil_error [of "WithFormat (WithHeaders DefaultOptions [str ''A'']) FormatMarkdown"
      "[[], [str ''a'', str ''b'', str ''c'']]"]
    render_nil_error [of "WithFormat DefaultOptions FormatCSV" "[[]]"]
    render_nil_error [of "WithFormat DefaultOptions FormatSimple" "[]"]
  by (simp add: options_defs format_defs)

theorem render_MissingHeaders_witness:
  "render (WithFormat DefaultOptions FormatJSON) [[str ''Alice'', str ''30'']]
     = Some ([], Some ErrMissingHeaders)
   \<and> (\<nexists>s. render (WithFormat (WithHeaders DefaultOptions [str ''Name'']) FormatJSON)
              [[str ''Alice'', str ''30'']] = Some (s, Some ErrMissingHeaders))
   \<and> (\<nexists>s. render (WithFormat DefaultOptions FormatCSV) [[str ''Alice'', str ''30'']]
              = Some (s, Some ErrMissingHeaders))"
  using
    render_MissingHeaders [of "WithFormat DefaultOptions FormatJSON" "[[str ''Alice'', str ''30'']]"]
    render_MissingHeaders [of "WithFormat (WithHeaders DefaultOptions [str ''Name'']) FormatJSON"
      "[[str ''Alice'', str ''30'']]"]
    render_MissingHeaders [of "WithFormat DefaultOptions FormatCSV" "[[str ''Alice'', str ''30'']]"]
  by (simp add: options_defs format_defs)

theorem render_trailing_newline_witness:
  "render (WithFormat (WithHeaders DefaultOptions [str ''Col1'', str ''Col2'']) FormatSimple)
      [[str ''a'', str ''b''], [str ''c'', str ''d'']]
     = Some (str ''Col1  Col2\<newline>----  ----\<newline>a     b   \<newline>c     d   \<newline>'', None)
   \<and> (\<exists>t. str ''Col1  Col2\<newline>----  ----\<newline>a     b   \<newline>c     d   \<newline>'' = t @ NL)"
proof -
  have r: "render (WithFormat (WithHeaders DefaultOptions [str ''Col1'', str ''Col2'']) FormatSimple)
      [[str ''a'', str ''b''], [str ''c'', str ''d'']]
     = Some (str ''Col1  Col2\<newline>----  ----\<newline>a     b   \<newline>c     d   \<newline>'', None)"
    by code_simp
  have ne: "str ''Col1  Col2\<newline>----  ----\<newline>a     b   \<newline>c     d   \<newline>'' \<noteq> []"
    by (simp add: str_simps)
  from render_trailing_newline [OF r ne] r show ?thesis by blast
qed

end
